theory Spec2Isabelle
  imports Main
begin

section \<open>JavaScript values and objects\<close>

text \<open>
  The stream objects of \<^verbatim>\<open>src/models/Stream.js\<close> are plain JavaScript objects that are
  spread, destructured and extended with new keys. They are modelled as association lists
  from property names to values, in insertion order. A missing property reads as
  \<open>Undefined\<close>. Dates are milliseconds since the epoch. A string value is the list of its
  code units; the type \<open>'u\<close> of a code unit is left open, so that what is proved holds for
  the sixteen-bit units of JavaScript.
\<close>

datatype 'u jsval =
    Undefined
  | Null
  | Bool bool
  | Num int
  | Str "'u list"
  | Date int
  | Arr "'u jsval list"

type_synonym 'u obj = "(string \<times> 'u jsval) list"

text \<open>\<^verbatim>\<open>o.k\<close>: property read.\<close>

definition get :: "'u obj \<Rightarrow> string \<Rightarrow> 'u jsval" where
  "get ob k = (case map_of ob k of None \<Rightarrow> Undefined | Some v \<Rightarrow> v)"

text \<open>\<^verbatim>\<open>{...o, k: v}\<close>: an existing key keeps its place, a new key is appended.\<close>

fun set_prop :: "string \<Rightarrow> 'u jsval \<Rightarrow> 'u obj \<Rightarrow> 'u obj" where
  "set_prop k v [] = [(k, v)]"
| "set_prop k v (p # ps) = (if fst p = k then (k, v) # ps else p # set_prop k v ps)"

text \<open>\<^verbatim>\<open>{...a, ...b}\<close>: every own property of \<open>b\<close> is written over \<open>a\<close>.\<close>

definition spread :: "'u obj \<Rightarrow> 'u obj \<Rightarrow> 'u obj" where
  "spread a b = fold (\<lambda>(k, v) acc. set_prop k v acc) b a"

text \<open>\<^verbatim>\<open>const { k, ...rest } = o\<close>: the rest object.\<close>

definition without :: "string \<Rightarrow> 'u obj \<Rightarrow> 'u obj" where
  "without k ob = filter (\<lambda>p. fst p \<noteq> k) ob"

text \<open>Truthiness, as \<^verbatim>\<open>if (v)\<close> and \<^verbatim>\<open>v && ...\<close> test it.\<close>

fun truthy :: "'u jsval \<Rightarrow> bool" where
  "truthy Undefined = False"
| "truthy Null = False"
| "truthy (Bool b) = b"
| "truthy (Num n) = (n \<noteq> 0)"
| "truthy (Str s) = (s \<noteq> [])"
| "truthy (Date t) = True"
| "truthy (Arr xs) = True"

text \<open>\<^verbatim>\<open>v != null ? v : null\<close> (loose comparison: \<open>undefined\<close> and \<open>null\<close> both give \<open>null\<close>).\<close>

definition or_null :: "'u jsval \<Rightarrow> 'u jsval" where
  "or_null v = (if v = Undefined \<or> v = Null then Null else v)"

subsection \<open>Strings\<close>

text \<open>
  \<^verbatim>\<open>String.prototype.toLowerCase\<close> and \<^verbatim>\<open>String.prototype.toLocaleLowerCase\<close> belong to
  the JavaScript host: the first follows the Unicode case mapping, the second the locale of
  the host as well. They are taken as they come, as two functions on strings.
\<close>

record 'u host =
  toLowerCase :: "'u list \<Rightarrow> 'u list"
  toLocaleLowerCase :: "'u list \<Rightarrow> 'u list"

text \<open>\<^verbatim>\<open>s.startsWith(k)\<close> and \<^verbatim>\<open>s.includes(k)\<close> (substring test on the code units).\<close>

fun starts_with :: "'a list \<Rightarrow> 'a list \<Rightarrow> bool" where
  "starts_with s [] = True"
| "starts_with [] (k # ks) = False"
| "starts_with (c # cs) (k # ks) = (c = k \<and> starts_with cs ks)"

fun str_includes :: "'a list \<Rightarrow> 'a list \<Rightarrow> bool" where
  "str_includes [] k = (k = [])"
| "str_includes (c # cs) k = (starts_with (c # cs) k \<or> str_includes cs k)"

section \<open>twitch.js\<close>

subsection \<open>The network, the token and the process\<close>

text \<open>
  The module variable \<^verbatim>\<open>token\<close> (line 11): \<open>undefined\<close> until the first exchange, \<open>null\<close>
  after a 401, otherwise the string last stored in it.
\<close>

datatype token = TUndefined | TNull | Tok string

fun token_truthy :: "token \<Rightarrow> bool" where
  "token_truthy (Tok t) = (t \<noteq> [])"
| "token_truthy _ = False"

text \<open>\<^verbatim>\<open>'Bearer ' + token\<close> (line 25).\<close>

fun bearer :: "token \<Rightarrow> string" where
  "bearer TUndefined = ''Bearer undefined''"
| "bearer TNull = ''Bearer null''"
| "bearer (Tok t) = ''Bearer '' @ t"

text \<open>
  The decoded JSON body of a response, with the members the module reads: \<open>access_token\<close>
  (lines 98-99), \<open>data\<close> and \<open>pagination.cursor\<close> (lines 115-122, 146-150). \<open>None\<close> is an
  absent member; \<open>pagination = Some None\<close> is a \<open>pagination\<close> object with no cursor. The
  items of \<open>data\<close> are of the type the endpoint serves.
\<close>

record 'a body =
  access_token :: "string option"
  data :: "'a list option"
  pagination :: "string option option"

record 'a response =
  status :: nat
  json :: "'a body"
  raw_text :: string

text \<open>What the promise of \<^verbatim>\<open>apiRequest\<close> resolves to.\<close>

datatype 'a val = VUndefined | VStatus nat | VJson "'a body" | VText string

text \<open>
  How a promise ends: resolved, rejected, or never settled because \<^verbatim>\<open>process.exit\<close> was
  called first.
\<close>

datatype 'r outcome = Resolved 'r | Rejected | Exited

text \<open>The arguments of \<^verbatim>\<open>apiRequest\<close> (lines 13-22), and a request as \<^verbatim>\<open>fetch\<close> sends it.\<close>

datatype pval = PUndefined | PNum int | PStr string

record call =
  endpoint :: string
  payload :: "(string \<times> pval) list"
  http_method :: string
  urlBase :: string
  responseType :: string
  retries :: nat
  noauth :: bool

record request =
  req_url :: string
  req_method :: string
  req_payload :: "(string \<times> pval) list"
  req_authorization :: "string option"

text \<open>
  The state the module works on: its token, the answers the network will give to the
  next requests in the order the requests are sent, the requests sent so far, and whether
  the process has exited. Responses are well-formed: \<^verbatim>\<open>fetch\<close> resolves and the body
  decodes.
\<close>

record 'a world =
  token :: token
  responses :: "'a response list"
  requests :: "request list"
  exited :: bool

text \<open>The defaults of the parameters of \<^verbatim>\<open>apiRequest\<close>.\<close>

definition URL_BASE :: string where
  "URL_BASE = ''https://api.twitch.tv/helix''"

definition default_call :: "string \<Rightarrow> (string \<times> pval) list \<Rightarrow> call" where
  "default_call ep pl =
     \<lparr>endpoint = ep, payload = pl, http_method = ''GET'', urlBase = URL_BASE,
      responseType = ''json'', retries = 1, noauth = False\<rparr>"

definition sent :: "call \<Rightarrow> token \<Rightarrow> request" where
  "sent c t =
     \<lparr>req_url = urlBase c @ endpoint c, req_method = http_method c, req_payload = payload c,
      req_authorization = (if noauth c then None else Some (bearer t))\<rparr>"

text \<open>
  The first \<^verbatim>\<open>then\<close> callback of \<^verbatim>\<open>apiRequest\<close> (lines 36-57): it returns a value,
  throws, or exits the process.
\<close>

datatype 'a reply = Return "'a val" | Throw | Exit

definition on_response :: "call \<Rightarrow> 'a response \<Rightarrow> 'a world \<Rightarrow> 'a reply \<times> 'a world" where
  "on_response c res w =
     (if status res = 401 then
        (let w' = w\<lparr>token := TNull\<rparr> in
         if retries c = 0 then (Exit, w'\<lparr>exited := True\<rparr>) else (Throw, w'))
      else if status res \<noteq> 200 then (Return (VStatus (status res)), w)
      else if responseType c = ''json'' then (Return (VJson (json res)), w)
      else (Return (VText (raw_text res)), w))"

text \<open>The client-credentials request of \<^verbatim>\<open>ensureToken\<close> (lines 88-97).\<close>

definition token_call :: "string \<Rightarrow> string \<Rightarrow> call" where
  "token_call clientId clientSecret =
     (default_call ''/oauth2/token''
        [(''client_id'', PStr clientId), (''client_secret'', PStr clientSecret),
         (''grant_type'', PStr ''client_credentials'')])
     \<lparr>noauth := True, http_method := ''post'', urlBase := ''https://id.twitch.tv''\<rparr>"

text \<open>\<^verbatim>\<open>({ access_token }) => { token = access_token; ... }\<close> applied to a resolved value:
  destructuring \<open>undefined\<close> throws; a number or a string has no such member.\<close>

fun access_token_of :: "'a val \<Rightarrow> token option" where
  "access_token_of VUndefined = None"
| "access_token_of (VStatus k) = Some TUndefined"
| "access_token_of (VText s) = Some TUndefined"
| "access_token_of (VJson b) =
     (case access_token b of None \<Rightarrow> Some TUndefined | Some a \<Rightarrow> Some (Tok a))"

text \<open>
  \<^verbatim>\<open>apiRequest\<close> (lines 13-77) and \<^verbatim>\<open>ensureToken\<close> (lines 82-104). The first argument
  bounds the depth of the calls; the result is \<open>None\<close> when the bound or the list of
  responses runs out. A dead process sends nothing.

  After a 401 with retries left the rejection handler (lines 60-76) starts
  \<^verbatim>\<open>ensureToken().then(retry)\<close> but does not return that promise: the promise of
  \<^verbatim>\<open>apiRequest\<close> resolves to \<open>undefined\<close>. The chain it started is run here to its end
  before the caller goes on, so that its requests and a \<^verbatim>\<open>process.exit\<close> in it are part
  of the resulting state. The retry is called without \<^verbatim>\<open>noauth\<close>, which then has its
  default.
\<close>

fun apiRequest :: "nat \<Rightarrow> string \<times> string \<Rightarrow> call \<Rightarrow> 'a world \<Rightarrow> ('a val outcome \<times> 'a world) option"
  and ensureToken :: "nat \<Rightarrow> string \<times> string \<Rightarrow> 'a world \<Rightarrow> (token outcome \<times> 'a world) option"
where
  "apiRequest 0 cred c w = None"
| "apiRequest (Suc n) cred c w =
     (if exited w then Some (Exited, w)
      else
        (case responses w of
           [] \<Rightarrow> None
         | res # rest \<Rightarrow>
             (case on_response c res
                     (w\<lparr>requests := requests w @ [sent c (token w)], responses := rest\<rparr>) of
                (Return v, w1) \<Rightarrow> Some (Resolved v, w1)
              | (Exit, w1) \<Rightarrow> Some (Exited, w1)
              | (Throw, w1) \<Rightarrow>
                  (case ensureToken n cred (w1\<lparr>token := TNull\<rparr>) of
                     None \<Rightarrow> None
                   | Some (Resolved t, w2) \<Rightarrow>
                       (case apiRequest n cred (c\<lparr>retries := retries c - 1, noauth := False\<rparr>) w2 of
                          None \<Rightarrow> None
                        | Some (r, w3) \<Rightarrow> Some (Resolved VUndefined, w3))
                   | Some (r, w2) \<Rightarrow> Some (Resolved VUndefined, w2)))))"
| "ensureToken 0 cred w = None"
| "ensureToken (Suc n) cred w =
     (if token_truthy (token w) then Some (Resolved (token w), w)
      else
        (case apiRequest n cred (token_call (fst cred) (snd cred)) w of
           None \<Rightarrow> None
         | Some (Resolved v, w1) \<Rightarrow>
             (case access_token_of v of
                None \<Rightarrow> Some (Rejected, w1)
              | Some t \<Rightarrow> Some (Resolved t, w1\<lparr>token := t\<rparr>))
         | Some (Rejected, w1) \<Rightarrow> Some (Rejected, w1)
         | Some (Exited, w1) \<Rightarrow> Some (Exited, w1)))"

subsection \<open>Pagination\<close>

text \<open>A truthy cursor: present and not the empty string.\<close>

fun cursor_truthy :: "string option \<Rightarrow> bool" where
  "cursor_truthy None = False"
| "cursor_truthy (Some c) = (c \<noteq> [])"

definition after :: "string option \<Rightarrow> pval" where
  "after cursor = (case cursor of None \<Rightarrow> PUndefined | Some c \<Rightarrow> PStr c)"






text \<open>\<^verbatim>\<open>games.join(',')\<close>.\<close>

fun join :: "string list \<Rightarrow> string" where
  "join [] = []"
| "join [g] = g"
| "join (g # gs) = g @ '','' @ join gs"

definition streams_call :: "string list \<Rightarrow> string option \<Rightarrow> call" where
  "streams_call games cursor =
     default_call ''/streams''
       [(''first'', PNum 100), (''game_id'', PStr (join games)), (''after'', after cursor)]"

text \<open>\<^verbatim>\<open>getStreams\<close> (lines 141-156).\<close>

fun getStreams :: "nat \<Rightarrow> string \<times> string \<Rightarrow> string list \<Rightarrow> string option \<Rightarrow> 'a list \<Rightarrow> 'a world \<Rightarrow>
    ('a list outcome \<times> 'a world) option" where
  "getStreams 0 cred games cursor streams w = None"
| "getStreams (Suc n) cred games cursor streams w =
     (case apiRequest n cred (streams_call games cursor) w of
        None \<Rightarrow> None
      | Some (Rejected, w1) \<Rightarrow> Some (Rejected, w1)
      | Some (Exited, w1) \<Rightarrow> Some (Exited, w1)
      | Some (Resolved VUndefined, w1) \<Rightarrow> Some (Rejected, w1)
      | Some (Resolved (VStatus k), w1) \<Rightarrow> Some (Resolved streams, w1)
      | Some (Resolved (VText s), w1) \<Rightarrow> Some (Resolved streams, w1)
      | Some (Resolved (VJson b), w1) \<Rightarrow>
          (case data b of
             None \<Rightarrow> Some (Resolved streams, w1)
           | Some items \<Rightarrow>
               (let newStreams = streams @ items in
                case pagination b of
                  None \<Rightarrow> Some (Rejected, w1)
                | Some cur \<Rightarrow>
                    if cursor_truthy cur \<and> 100 \<le> length items
                    then getStreams n cred games cur newStreams w1
                    else Some (Resolved newStreams, w1))))"

subsection \<open>Streams by metadata\<close>

text \<open>
  A stream as the API serves it (\<^verbatim>\<open>TwitchStream\<close>), with the members read by twitch.js and
  Stream.js: \<open>id\<close> is the id of the stream (stored as \<open>stream_id\<close>), \<open>user_id\<close> the id of
  the channel. An absent title or tag list is \<open>None\<close>. The title is a list of code units.
\<close>

record 'u TwitchStream =
  tw_id :: string
  tw_user_id :: string
  tw_title :: "'u list option"
  tw_tag_ids :: "string list option"

text \<open>The filters of \<^verbatim>\<open>getStreamsByTagId\<close> (line 166) and \<^verbatim>\<open>getStreamsByKeywords\<close> (line 177).\<close>

definition tag_match :: "string list \<Rightarrow> 'u TwitchStream \<Rightarrow> bool" where
  "tag_match tagIds stream =
     (case tw_tag_ids stream of
        None \<Rightarrow> False
      | Some ids \<Rightarrow> list_ex (\<lambda>i. i \<in> set tagIds) ids)"

definition keyword_match :: "'u host \<Rightarrow> 'u list list \<Rightarrow> 'u TwitchStream \<Rightarrow> bool" where
  "keyword_match h keywords stream =
     (case tw_title stream of
        None \<Rightarrow> False
      | Some t \<Rightarrow>
          t \<noteq> [] \<and>
          list_ex (\<lambda>kw. str_includes (toLowerCase h t) (toLocaleLowerCase h kw)) keywords)"

text \<open>The \<^verbatim>\<open>reduce\<close> of lines 192-198.\<close>

definition dedupe_step :: "'u TwitchStream \<Rightarrow> 'u TwitchStream list \<Rightarrow> 'u TwitchStream list" where
  "dedupe_step stream streams =
     (case find (\<lambda>s. tw_id s = tw_id stream) streams of
        Some s \<Rightarrow> streams
      | None \<Rightarrow> streams @ [stream])"

definition mergeStreams :: "'u TwitchStream list \<Rightarrow> 'u TwitchStream list \<Rightarrow> 'u TwitchStream list" where
  "mergeStreams taggedStreams kwStreams = fold dedupe_step (taggedStreams @ kwStreams) []"

text \<open>
  \<^verbatim>\<open>p.then(f)\<close> for a callback that does not throw, and \<^verbatim>\<open>Promise.all([p1, p2])\<close>: it
  resolves when both do and rejects when one of them rejects.
\<close>

fun on_resolved :: "('a \<Rightarrow> 'b) \<Rightarrow> 'a outcome \<Rightarrow> 'b outcome" where
  "on_resolved f (Resolved a) = Resolved (f a)"
| "on_resolved f Rejected = Rejected"
| "on_resolved f Exited = Exited"

fun all2 :: "'a outcome \<Rightarrow> 'b outcome \<Rightarrow> ('a \<times> 'b) outcome" where
  "all2 (Resolved a) (Resolved b) = Resolved (a, b)"
| "all2 Exited _ = Exited"
| "all2 _ Exited = Exited"
| "all2 _ _ = Rejected"

text \<open>
  \<^verbatim>\<open>getStreamsByTagId\<close> (lines 164-167), \<^verbatim>\<open>getStreamsByKeywords\<close> (lines 175-178) and
  \<^verbatim>\<open>getStreamsByMetadata\<close> (lines 186-200). Each of the first two starts its own
  \<^verbatim>\<open>getStreams(gameIds)\<close>, and \<^verbatim>\<open>Promise.all\<close> lets the two listings run at the same time:
  both first requests are sent before any answer is in, and the later requests of the two
  follow one another as the network answers. No order is fixed here: the functions take
  what the listing ends in (the first what the listing of \<^verbatim>\<open>getStreamsByTagId\<close> ends in,
  the second that of \<^verbatim>\<open>getStreamsByKeywords\<close>), whichever way the two interleave, and
  give what the promise ends in.
\<close>

definition getStreamsByTagId :: "string list \<Rightarrow> 'u TwitchStream list outcome \<Rightarrow>
    'u TwitchStream list outcome" where
  "getStreamsByTagId tagIds listing = on_resolved (filter (tag_match tagIds)) listing"

definition getStreamsByKeywords :: "'u host \<Rightarrow> 'u list list \<Rightarrow> 'u TwitchStream list outcome \<Rightarrow>
    'u TwitchStream list outcome" where
  "getStreamsByKeywords h keywords listing =
     on_resolved (filter (keyword_match h keywords)) listing"

definition getStreamsByMetadata :: "'u host \<Rightarrow> string list \<Rightarrow> 'u list list \<Rightarrow>
    'u TwitchStream list outcome \<Rightarrow> 'u TwitchStream list outcome \<Rightarrow>
    'u TwitchStream list outcome" where
  "getStreamsByMetadata h tagIds keywords tagListing kwListing =
     on_resolved (\<lambda>(taggedStreams, kwStreams). mergeStreams taggedStreams kwStreams)
       (all2 (getStreamsByTagId tagIds tagListing)
             (getStreamsByKeywords h keywords kwListing))"

subsection \<open>Pages of a listing\<close>

text \<open>
  What \<^verbatim>\<open>getAllTags\<close> and \<^verbatim>\<open>getStreams\<close> see of a response: the value \<^verbatim>\<open>apiRequest\<close>
  resolves to for a response other than a 401, the items of its page, its cursor, and
  whether the listing goes on after it. A listing goes on after a 200 response that has a
  \<open>data\<close> member and a truthy cursor; the stream listing asks in addition for a page of at
  least 100 items. A listing ends with a response other than 401 that is not a 200, or has
  no \<open>data\<close> member, or has a \<open>pagination\<close> member without a truthy cursor; the stream
  listing also ends with a page of fewer than 100 items that has a cursor.
\<close>

definition decoded :: "call \<Rightarrow> 'a response \<Rightarrow> 'a val" where
  "decoded c res =
     (if status res \<noteq> 200 then VStatus (status res)
      else if responseType c = ''json'' then VJson (json res)
      else VText (raw_text res))"









subsection \<open>Example data for twitch.js\<close>

text \<open>
  The strings of the examples are made of ASCII characters, one code unit each. On such
  strings both lowering functions of a JavaScript host (in a locale without special rules
  for the letter I) replace the letters \<open>A\<close> to \<open>Z\<close> by \<open>a\<close> to \<open>z\<close>; that is the host of
  the examples. Then credentials, responses (a page of items with its cursor, a bare
  status, a token), a world that has sent nothing yet, and a few tags and streams.
\<close>

definition lower_char :: "char \<Rightarrow> char" where
  "lower_char c =
     (case map_of (zip ''ABCDEFGHIJKLMNOPQRSTUVWXYZ'' ''abcdefghijklmnopqrstuvwxyz'') c of
        Some l \<Rightarrow> l
      | None \<Rightarrow> c)"

definition ascii_lower :: "string \<Rightarrow> string" where
  "ascii_lower s = map lower_char s"

definition ex_host :: "char host" where
  "ex_host = \<lparr>toLowerCase = ascii_lower, toLocaleLowerCase = ascii_lower\<rparr>"

definition ex_cred :: "string \<times> string" where
  "ex_cred = (''client'', ''secret'')"

definition page :: "'a list \<Rightarrow> string option \<Rightarrow> 'a response" where
  "page items cur =
     \<lparr>status = 200,
      json = \<lparr>access_token = None, data = Some items, pagination = Some cur\<rparr>,
      raw_text = []\<rparr>"


definition answer :: "nat \<Rightarrow> 'a response" where
  "answer st =
     \<lparr>status = st, json = \<lparr>access_token = None, data = None, pagination = None\<rparr>,
      raw_text = []\<rparr>"

definition token_answer :: "string \<Rightarrow> 'a response" where
  "token_answer t =
     \<lparr>status = 200, json = \<lparr>access_token = Some t, data = None, pagination = None\<rparr>,
      raw_text = []\<rparr>"

definition start :: "token \<Rightarrow> 'a response list \<Rightarrow> 'a world" where
  "start t rs = \<lparr>token = t, responses = rs, requests = [], exited = False\<rparr>"

definition ex_call :: call where
  "ex_call = default_call ''/games'' [(''name'', PStr ''tetris'')]"



definition streamA :: "char TwitchStream" where
  "streamA = \<lparr>tw_id = ''s1'', tw_user_id = ''7'', tw_title = Some ''Any% speedrun'',
              tw_tag_ids = Some [''t1'']\<rparr>"

definition streamB :: "char TwitchStream" where
  "streamB = \<lparr>tw_id = ''s2'', tw_user_id = ''8'', tw_title = Some ''chill'',
              tw_tag_ids = Some [''t1'', ''t5'']\<rparr>"

definition streamC :: "char TwitchStream" where
  "streamC = \<lparr>tw_id = ''s3'', tw_user_id = ''9'', tw_title = Some ''SpeedRun practice'',
              tw_tag_ids = None\<rparr>"

text \<open>The channel of \<open>streamA\<close> again, with a new stream id and no tags.\<close>

definition streamA2 :: "char TwitchStream" where
  "streamA2 = \<lparr>tw_id = ''s9'', tw_user_id = ''7'', tw_title = Some ''Any% speedrun'',
               tw_tag_ids = None\<rparr>"

section \<open>Configuration, clock and collaborators of Stream.js\<close>

text \<open>
  \<^verbatim>\<open>config.twitch.blacklist\<close>, \<^verbatim>\<open>config.twitch.whitelist\<close> and \<^verbatim>\<open>config.thresholds\<close> of
  \<^verbatim>\<open>config.json\<close>.
\<close>

record 'u config =
  blacklist_keywords :: "'u list list"
  blacklist_tagIds :: "'u list list"
  blacklist_userIds :: "'u list list"
  whitelist_userIds :: "'u list list"
  reconnect_minutes :: int
  shoutout_hours :: int

text \<open>
  The surroundings of one reconciliation call: the configuration, the JavaScript host, the
  notifier (\<^verbatim>\<open>discordBot.newStreamAlert\<close>; \<open>True\<close> when its promise resolves, \<open>False\<close> when
  it throws or rejects), and the successive readings of \<^verbatim>\<open>new Date()\<close>: \<open>now_hours\<close> at
  line 125, \<open>now_minutes\<close> at line 126 and \<open>now_shout\<close> at lines 146 and 164.

  The date-fns library is not part of the repository. Its functions first turn each
  argument into an instant: a \<open>Date\<close> is taken as it is, a number as milliseconds since the
  epoch, \<open>undefined\<close> gives an invalid date. What it makes of any other value depends on
  its version (date-fns 1 parses a string and hands the rest to \<^verbatim>\<open>new Date\<close>, so that
  \<open>null\<close> is the epoch; date-fns 2 gives an invalid date): that is \<open>other_dates\<close>, with
  \<open>None\<close> for an invalid date.
\<close>

datatype jsnum = NaN | Fin int

record 'u env =
  cfg :: "'u config"
  host :: "'u host"
  notifier :: "'u obj \<Rightarrow> bool"
  now_hours :: int
  now_minutes :: int
  now_shout :: int
  other_dates :: "'u jsval \<Rightarrow> int option"

definition instant :: "'u env \<Rightarrow> 'u jsval \<Rightarrow> int option" where
  "instant e v =
     (case v of
        Date t \<Rightarrow> Some t
      | Num n \<Rightarrow> Some n
      | Undefined \<Rightarrow> None
      | _ \<Rightarrow> other_dates e v)"

text \<open>
  date-fns: the difference in milliseconds divided by the unit and truncated towards zero
  (\<^verbatim>\<open>diff > 0 ? Math.floor(diff) : Math.ceil(diff)\<close>); not-a-number when the date is
  invalid.
\<close>

definition trunc_div :: "int \<Rightarrow> int \<Rightarrow> int" where
  "trunc_div d k = (if 0 < d then d div k else - ((- d) div k))"

definition differenceInMinutes :: "'u env \<Rightarrow> int \<Rightarrow> 'u jsval \<Rightarrow> jsnum" where
  "differenceInMinutes e now v =
     (case instant e v of None \<Rightarrow> NaN | Some t \<Rightarrow> Fin (trunc_div (now - t) 60000))"

definition differenceInHours :: "'u env \<Rightarrow> int \<Rightarrow> 'u jsval \<Rightarrow> jsnum" where
  "differenceInHours e now v =
     (case instant e v of None \<Rightarrow> NaN | Some t \<Rightarrow> Fin (trunc_div (now - t) 3600000))"

text \<open>Comparisons of numbers; every comparison with not-a-number is false.\<close>

fun num_lt :: "jsnum \<Rightarrow> int \<Rightarrow> bool" where
  "num_lt NaN k = False"
| "num_lt (Fin n) k = (n < k)"

fun num_ge :: "jsnum \<Rightarrow> int \<Rightarrow> bool" where
  "num_ge NaN k = False"
| "num_ge (Fin n) k = (k \<le> n)"

text \<open>What a call leaves behind, in order: the calls to the notifier, to
  \<^verbatim>\<open>twitchClient.subscribeToUserStream\<close> and to the store
  (\<^verbatim>\<open>insert(row)\<close>, \<^verbatim>\<open>update(row).where('user_id', key)\<close>).\<close>

datatype 'u event =
    Notified "'u obj"
  | Subscribed "'u jsval"
  | DbInsert "'u obj"
  | DbUpdate "'u obj" "'u jsval"

datatype alert_error =
    TypeError
  | BlacklistedKeyword
  | BlacklistedTag
  | BlacklistedUser
  | NotifierFailed

section \<open>Stream.js\<close>

text \<open>\<^verbatim>\<open>subscribeToStream\<close> (lines 16-19).\<close>

definition subscribeToStream :: "'u obj \<Rightarrow> 'u event list" where
  "subscribeToStream stream = [Subscribed (get stream ''user_id'')]"

text \<open>
  \<^verbatim>\<open>v.includes(tag)\<close> for the value of \<^verbatim>\<open>stream.tag_ids\<close>: membership in an array, substring
  of a string, and a TypeError on any other (truthy) value, which has no such method.
\<close>

fun includes_val :: "'u jsval \<Rightarrow> 'u list \<Rightarrow> bool option" where
  "includes_val (Arr xs) t = Some (Str t \<in> set xs)"
| "includes_val (Str s) t = Some (str_includes s t)"
| "includes_val _ t = None"

text \<open>\<^verbatim>\<open>tagIds.some(tag => stream.tag_ids.includes(tag))\<close>, stopping at the first hit or throw.\<close>

fun some_tag :: "'u jsval \<Rightarrow> 'u list list \<Rightarrow> alert_error + bool" where
  "some_tag v [] = Inr False"
| "some_tag v (t # ts) =
     (case includes_val v t of
        None \<Rightarrow> Inl TypeError
      | Some True \<Rightarrow> Inr True
      | Some False \<Rightarrow> some_tag v ts)"

text \<open>\<^verbatim>\<open>keywords.some(kw => title.toLowerCase().includes(kw.toLocaleLowerCase()))\<close>.\<close>

definition some_keyword :: "'u host \<Rightarrow> 'u list \<Rightarrow> 'u list list \<Rightarrow> bool" where
  "some_keyword h title kws =
     list_ex (\<lambda>kw. str_includes (toLowerCase h title) (toLocaleLowerCase h kw)) kws"

text \<open>\<^verbatim>\<open>userIds.includes(stream.user_id)\<close>: strict equality with one of the configured strings.\<close>

definition in_ids :: "'u list list \<Rightarrow> 'u jsval \<Rightarrow> bool" where
  "in_ids ids v = (case v of Str u \<Rightarrow> u \<in> set ids | _ \<Rightarrow> False)"

text \<open>
  \<^verbatim>\<open>alertStream\<close> (lines 24-44). The first statement lowers \<^verbatim>\<open>stream.title\<close> inside a
  template string, which throws unless the title is a string. The result is the list of
  notifier calls made and how the promise settles.
\<close>

definition alertStream :: "'u env \<Rightarrow> 'u obj \<Rightarrow> 'u event list \<times> (alert_error + unit)" where
  "alertStream e stream =
     (case get stream ''title'' of
        Str title \<Rightarrow>
          if truthy (Str title) \<and> some_keyword (host e) title (blacklist_keywords (cfg e))
          then ([], Inl BlacklistedKeyword)
          else
            (case (if truthy (get stream ''tag_ids'')
                   then some_tag (get stream ''tag_ids'') (blacklist_tagIds (cfg e))
                   else Inr False) of
               Inl err \<Rightarrow> ([], Inl err)
             | Inr True \<Rightarrow> ([], Inl BlacklistedTag)
             | Inr False \<Rightarrow>
                 if truthy (get stream ''user_id'') \<and>
                    in_ids (blacklist_userIds (cfg e)) (get stream ''user_id'')
                 then ([], Inl BlacklistedUser)
                 else if notifier e stream then ([Notified stream], Inr ())
                 else ([Notified stream], Inl NotifierFailed))
      | _ \<Rightarrow> ([], Inl TypeError))"

text \<open>\<^verbatim>\<open>convertToDStream\<close> (lines 51-64).\<close>

definition convertToDStream :: "'u obj \<Rightarrow> 'u obj" where
  "convertToDStream istream =
     set_prop ''offline_since'' (or_null (get istream ''offline_since''))
       (set_prop ''stream_id'' (get istream ''id'')
         (set_prop ''lastShoutOut'' (or_null (get istream ''lastShoutOut''))
           (set_prop ''isLive'' (or_null (get istream ''isLive''))
             (without ''id'' istream))))"

text \<open>\<^verbatim>\<open>create\<close> (lines 90-93).\<close>

definition create :: "'u obj \<Rightarrow> 'u event list" where
  "create stream = [DbInsert (convertToDStream stream)]"

text \<open>
  \<^verbatim>\<open>update\<close> (lines 100-111); the second argument is \<open>None\<close> when it is left out. The row
  handed to the store is \<^verbatim>\<open>stream\<close>; \<^verbatim>\<open>updatedStream\<close> only supplies the key of the
  \<^verbatim>\<open>where\<close> clause.
\<close>

definition update :: "'u obj \<Rightarrow> 'u obj option \<Rightarrow> 'u event list" where
  "update stream upd =
     (let updatedStream = (case upd of
                             Some u \<Rightarrow> spread stream (convertToDStream u)
                           | None \<Rightarrow> stream)
      in [DbUpdate stream (get updatedStream ''user_id'')])"

text \<open>\<^verbatim>\<open>isWhitelisted\<close> (lines 115-117).\<close>

definition isWhitelisted :: "'u env \<Rightarrow> 'u obj \<Rightarrow> bool" where
  "isWhitelisted e stream = in_ids (whitelist_userIds (cfg e)) (get stream ''user_id'')"


text \<open>The object built at line 124 of \<^verbatim>\<open>goneLive\<close>.\<close>

definition merged :: "'u obj \<Rightarrow> 'u obj \<Rightarrow> 'u obj" where
  "merged stream upd =
     set_prop ''offline_since'' (get stream ''offline_since'')
       (set_prop ''lastShoutOut'' (get stream ''lastShoutOut'')
         (set_prop ''isLive'' (Bool True)
           (spread stream (convertToDStream upd))))"

text \<open>
  \<^verbatim>\<open>offlineSinceMinutes\<close> (line 126): \<open>None\<close> is \<open>null\<close>.
\<close>

definition offlineSinceMinutes :: "'u env \<Rightarrow> 'u obj \<Rightarrow> jsnum option" where
  "offlineSinceMinutes e updatedStream =
     (if get updatedStream ''offline_since'' \<noteq> Null
      then Some (differenceInMinutes e (now_minutes e) (get updatedStream ''offline_since''))
      else None)"

definition lastShoutOutAgeHours :: "'u env \<Rightarrow> 'u obj \<Rightarrow> jsnum" where
  "lastShoutOutAgeHours e updatedStream =
     differenceInHours e (now_hours e) (get updatedStream ''lastShoutOut'')"

text \<open>The two suppression tests of lines 128 and 130.\<close>

definition reconnect_blip :: "'u env \<Rightarrow> 'u obj \<Rightarrow> bool" where
  "reconnect_blip e updatedStream =
     (case offlineSinceMinutes e updatedStream of
        None \<Rightarrow> False
      | Some m \<Rightarrow> num_lt m (reconnect_minutes (cfg e)))"

definition recently_shouted :: "'u env \<Rightarrow> 'u obj \<Rightarrow> bool" where
  "recently_shouted e updatedStream =
     (num_ge (lastShoutOutAgeHours e updatedStream) 0 \<and>
      num_lt (lastShoutOutAgeHours e updatedStream) (shoutout_hours (cfg e)) \<and>
      \<not> isWhitelisted e updatedStream)"

text \<open>\<^verbatim>\<open>goneLive\<close> (lines 122-154).\<close>

definition goneLive :: "'u env \<Rightarrow> 'u obj \<Rightarrow> 'u obj \<Rightarrow> 'u event list" where
  "goneLive e stream upd =
     (let updatedStream = merged stream upd in
      if reconnect_blip e updatedStream then
        subscribeToStream updatedStream @ update updatedStream None
      else if recently_shouted e updatedStream then
        subscribeToStream updatedStream @ update updatedStream None
      else
        (case alertStream e updatedStream of
           (calls, Inr _) \<Rightarrow>
             (let shouted = set_prop ''lastShoutOut'' (Date (now_shout e)) updatedStream
              in calls @ subscribeToStream shouted @ update shouted None)
         | (calls, Inl _) \<Rightarrow>
             calls @ subscribeToStream updatedStream @ update updatedStream None))"

text \<open>\<^verbatim>\<open>addNew\<close> (lines 158-171).\<close>

definition new_stream :: "'u obj \<Rightarrow> 'u obj" where
  "new_stream stream =
     set_prop ''offline_since'' Null
       (set_prop ''lastShoutOut'' Null
         (set_prop ''isLive'' (Bool True) stream))"

definition addNew :: "'u env \<Rightarrow> 'u obj \<Rightarrow> 'u event list" where
  "addNew e stream =
     (let newStream = new_stream stream in
      case alertStream e newStream of
        (calls, Inr _) \<Rightarrow>
          (let shouted = set_prop ''lastShoutOut'' (Date (now_shout e)) newStream
           in calls @ subscribeToStream shouted @ create shouted)
      | (calls, Inl _) \<Rightarrow>
          calls @ subscribeToStream newStream @ create newStream)"

text \<open>What the claims read off the events of a call.\<close>

definition notifier_calls :: "'u event list \<Rightarrow> 'u obj list" where
  "notifier_calls evs = [s. Notified s \<leftarrow> evs]"

definition subscriptions :: "'u event list \<Rightarrow> 'u jsval list" where
  "subscriptions evs = [u. Subscribed u \<leftarrow> evs]"

definition persisted :: "'u event list \<Rightarrow> 'u obj list" where
  "persisted evs = concat (map (\<lambda>ev. case ev of DbInsert r \<Rightarrow> [r] | DbUpdate r k \<Rightarrow> [r] | _ \<Rightarrow> []) evs)"

subsection \<open>The blacklist rule as the specification words it\<close>

text \<open>
  The three conditions of the specification: the title contains a blacklisted keyword
  without regard to case, the tag set intersects the blacklisted tag ids, the channel id is
  one of the blacklisted user ids. Case is set aside the way line 27 does it: the title is
  lowered by \<^verbatim>\<open>toLowerCase\<close>, the keyword by \<^verbatim>\<open>toLocaleLowerCase\<close>, and the one is sought
  in the other. \<open>blacklisted\<close> is the rule as \<^verbatim>\<open>alertStream\<close> applies it: the title
  condition and the channel condition count only for a non-empty title and a non-empty
  channel id.
\<close>

definition title_blacklisted :: "'u host \<Rightarrow> 'u config \<Rightarrow> 'u obj \<Rightarrow> bool" where
  "title_blacklisted h c s =
     (case get s ''title'' of
        Str t \<Rightarrow>
          list_ex (\<lambda>kw. str_includes (toLowerCase h t) (toLocaleLowerCase h kw))
            (blacklist_keywords c)
      | _ \<Rightarrow> False)"

definition tags_blacklisted :: "'u config \<Rightarrow> 'u obj \<Rightarrow> bool" where
  "tags_blacklisted c s =
     (case get s ''tag_ids'' of
        Arr xs \<Rightarrow> list_ex (\<lambda>t. Str t \<in> set xs) (blacklist_tagIds c)
      | _ \<Rightarrow> False)"

definition user_blacklisted :: "'u config \<Rightarrow> 'u obj \<Rightarrow> bool" where
  "user_blacklisted c s =
     (case get s ''user_id'' of
        Str u \<Rightarrow> u \<in> set (blacklist_userIds c)
      | _ \<Rightarrow> False)"

definition blacklisted :: "'u host \<Rightarrow> 'u config \<Rightarrow> 'u obj \<Rightarrow> bool" where
  "blacklisted h c s =
     ((title_blacklisted h c s \<and> get s ''title'' \<noteq> Str []) \<or>
      tags_blacklisted c s \<or>
      (user_blacklisted c s \<and> get s ''user_id'' \<noteq> Str []))"

subsection \<open>Example data for Stream.js\<close>

text \<open>
  A configuration, a stored row of a channel that went offline three minutes before the
  clock reading of line 126 and was last shouted out long ago, and an observed stream of
  the same channel. The notifier of \<open>ex_env\<close> always succeeds.
\<close>

definition ex_cfg :: "char config" where
  "ex_cfg = \<lparr>blacklist_keywords = [''spam''], blacklist_tagIds = [''t9''],
             blacklist_userIds = [''666''], whitelist_userIds = [''42''],
             reconnect_minutes = 5, shoutout_hours = 6\<rparr>"

definition ex_env :: "char env" where
  "ex_env = \<lparr>cfg = ex_cfg, host = ex_host, notifier = (\<lambda>_. True), now_hours = 100000000,
             now_minutes = 100000000, now_shout = 100000000, other_dates = (\<lambda>_. None)\<rparr>"

definition ex_row :: "char obj" where
  "ex_row = [(''user_id'', Str ''7''), (''user_name'', Str ''ann''), (''title'', Str ''old''),
             (''isLive'', Bool False), (''lastShoutOut'', Date 0), (''stream_id'', Str ''s1''),
             (''offline_since'', Date 99820000)]"

definition ex_update :: "char obj" where
  "ex_update = [(''id'', Str ''s2''), (''user_id'', Str ''7''), (''user_name'', Str ''ann''),
                (''title'', Str ''Hello''), (''tag_ids'', Arr [Str ''t1''])]"

section \<open>Properties of Stream.js\<close>

subsection \<open>Reading properties\<close>

lemma get_set_prop: "get (set_prop k v ob) k' = (if k' = k then v else get ob k')"
  by (induction ob) (auto simp: get_def)

lemma get_without: "get (without k ob) k' = (if k' = k then Undefined else get ob k')"
  by (induction ob) (auto simp: get_def without_def)

lemma merged_fields:
  "get (merged stream upd) ''lastShoutOut'' = get stream ''lastShoutOut''"
  "get (merged stream upd) ''offline_since'' = get stream ''offline_since''"
  "get (merged stream upd) ''isLive'' = Bool True"
  by (simp_all add: merged_def get_set_prop)

lemma new_stream_fields:
  "get (new_stream s) ''title'' = get s ''title''"
  "get (new_stream s) ''tag_ids'' = get s ''tag_ids''"
  "get (new_stream s) ''user_id'' = get s ''user_id''"
  "get (new_stream s) ''lastShoutOut'' = Null"
  "get (new_stream s) ''isLive'' = Bool True"
  "get (new_stream s) ''offline_since'' = Null"
  by (simp_all add: new_stream_def get_set_prop)

lemma convert_fields:
  "get (convertToDStream s) ''isLive'' = or_null (get s ''isLive'')"
  "get (convertToDStream s) ''lastShoutOut'' = or_null (get s ''lastShoutOut'')"
  "get (convertToDStream s) ''offline_since'' = or_null (get s ''offline_since'')"
  "get (convertToDStream s) ''stream_id'' = get s ''id''"
  by (simp_all add: convertToDStream_def get_set_prop get_without)

subsection \<open>The branches of goneLive\<close>

lemma alertStream_no_title:
  "get s ''title'' = Undefined \<or> get s ''title'' = Null \<Longrightarrow>
   alertStream e s = ([], Inl TypeError)"
  by (auto simp: alertStream_def)

lemma goneLive_suppressed:
  "reconnect_blip e (merged st u) \<or> recently_shouted e (merged st u) \<Longrightarrow>
   goneLive e st u =
     [Subscribed (get (merged st u) ''user_id''),
      DbUpdate (merged st u) (get (merged st u) ''user_id'')]"
  by (auto simp: goneLive_def Let_def subscribeToStream_def update_def)

lemma goneLive_alert_fails:
  "\<not> reconnect_blip e (merged st u) \<Longrightarrow> \<not> recently_shouted e (merged st u) \<Longrightarrow>
   snd (alertStream e (merged st u)) = Inl err \<Longrightarrow>
   goneLive e st u = fst (alertStream e (merged st u)) @
     [Subscribed (get (merged st u) ''user_id''),
      DbUpdate (merged st u) (get (merged st u) ''user_id'')]"
  by (cases "alertStream e (merged st u)")
     (auto simp: goneLive_def Let_def subscribeToStream_def update_def)


lemma goneLive_no_title:
  assumes "get (merged st u) ''title'' = Undefined \<or> get (merged st u) ''title'' = Null"
  shows "goneLive e st u =
     [Subscribed (get (merged st u) ''user_id''),
      DbUpdate (merged st u) (get (merged st u) ''user_id'')]"
proof (cases "reconnect_blip e (merged st u) \<or> recently_shouted e (merged st u)")
  case True
  then show ?thesis by (rule goneLive_suppressed)
next
  case False
  with alertStream_no_title [OF assms, of e]
  show ?thesis using goneLive_alert_fails [of e st u TypeError] by simp
qed

subsection \<open>The store's update\<close>

text \<open>
  C9. \<^verbatim>\<open>update(stream, update)\<close> with an update object hands the first argument,
  unchanged, to the store: the only store call is an update whose row is \<open>stream\<close>; the
  object merged from \<open>stream\<close> and the converted update supplies nothing but the key of the
  \<^verbatim>\<open>where\<close> clause, so a property that only the update carries is not written.
\<close>

theorem update_persists_first_argument:
  "update stream (Some upd) =
     [DbUpdate stream (get (spread stream (convertToDStream upd)) ''user_id'')] \<and>
   persisted (update stream (Some upd)) = [stream]"
  by (simp add: update_def persisted_def)

subsection \<open>Streams without a title\<close>

text \<open>
  C10. For a stream whose title is \<open>null\<close> or \<open>undefined\<close>, \<^verbatim>\<open>alertStream\<close> rejects with a
  TypeError before any blacklist test and without calling the notifier. \<^verbatim>\<open>addNew\<close> and
  \<^verbatim>\<open>goneLive\<close> catch the rejection: the notifier is not called, \<open>lastShoutOut\<close> stays
  \<open>null\<close> (\<^verbatim>\<open>addNew\<close>) or at the stored value (\<^verbatim>\<open>goneLive\<close>), the channel is subscribed
  and the row is written with \<open>isLive = true\<close>.
\<close>

theorem titleless_stream_not_alerted:
  "(get s ''title'' = Undefined \<or> get s ''title'' = Null \<longrightarrow>
      alertStream e s = ([], Inl TypeError) \<and>
      addNew e s = [Subscribed (get s ''user_id''), DbInsert (convertToDStream (new_stream s))] \<and>
      notifier_calls (addNew e s) = [] \<and>
      get (convertToDStream (new_stream s)) ''lastShoutOut'' = Null \<and>
      get (convertToDStream (new_stream s)) ''isLive'' = Bool True) \<and>
   (get (merged st u) ''title'' = Undefined \<or> get (merged st u) ''title'' = Null \<longrightarrow>
      goneLive e st u = [Subscribed (get (merged st u) ''user_id''),
                         DbUpdate (merged st u) (get (merged st u) ''user_id'')] \<and>
      notifier_calls (goneLive e st u) = [] \<and>
      get (merged st u) ''lastShoutOut'' = get st ''lastShoutOut'' \<and>
      get (merged st u) ''isLive'' = Bool True)"
proof (intro conjI impI)
  assume t: "get s ''title'' = Undefined \<or> get s ''title'' = Null"
  then show "alertStream e s = ([], Inl TypeError)" by (rule alertStream_no_title)
  from t have "alertStream e (new_stream s) = ([], Inl TypeError)"
    by (intro alertStream_no_title) (simp add: new_stream_fields)
  then show n: "addNew e s =
      [Subscribed (get s ''user_id''), DbInsert (convertToDStream (new_stream s))]"
    by (simp add: addNew_def Let_def subscribeToStream_def create_def new_stream_fields)
  show "notifier_calls (addNew e s) = []" by (simp add: n notifier_calls_def)
  show "get (convertToDStream (new_stream s)) ''lastShoutOut'' = Null"
    by (simp add: convert_fields new_stream_fields or_null_def)
  show "get (convertToDStream (new_stream s)) ''isLive'' = Bool True"
    by (simp add: convert_fields new_stream_fields or_null_def)
next
  assume t: "get (merged st u) ''title'' = Undefined \<or> get (merged st u) ''title'' = Null"
  then show g: "goneLive e st u = [Subscribed (get (merged st u) ''user_id''),
                         DbUpdate (merged st u) (get (merged st u) ''user_id'')]"
    by (rule goneLive_no_title)
  show "notifier_calls (goneLive e st u) = []" by (simp add: g notifier_calls_def)
  show "get (merged st u) ''lastShoutOut'' = get st ''lastShoutOut''"
    by (simp add: merged_fields)
  show "get (merged st u) ''isLive'' = Bool True" by (simp add: merged_fields)
qed

theorem titleless_stream_not_alerted_witness:
  "get (set_prop ''title'' Null ex_update) ''title'' = Null \<and>
   get (merged (set_prop ''offline_since'' Null ex_row) (set_prop ''title'' Null ex_update))
       ''title'' = Null \<and>
   alertStream ex_env (set_prop ''title'' Null ex_update) = ([], Inl TypeError) \<and>
   notifier_calls (addNew ex_env (set_prop ''title'' Null ex_update)) = [] \<and>
   notifier_calls (goneLive ex_env (set_prop ''offline_since'' Null ex_row)
                     (set_prop ''title'' Null ex_update)) = []"
proof -
  have h1: "get (set_prop ''title'' Null ex_update) ''title'' = Null"
    by (simp add: get_set_prop)
  have h2: "get (merged (set_prop ''offline_since'' Null ex_row)
                  (set_prop ''title'' Null ex_update)) ''title'' = Null"
    by (simp add: merged_def spread_def convertToDStream_def without_def get_def
        ex_update_def ex_row_def or_null_def)
  show ?thesis
    using titleless_stream_not_alerted
      [of "set_prop ''title'' Null ex_update" ex_env
          "set_prop ''offline_since'' Null ex_row" "set_prop ''title'' Null ex_update"]
      h1 h2
    by blast
qed

subsection \<open>Evaluating the examples\<close>

lemmas ev = goneLive_def addNew_def alertStream_def merged_def new_stream_def spread_def
  convertToDStream_def without_def get_def or_null_def subscribeToStream_def update_def create_def
  reconnect_blip_def recently_shouted_def offlineSinceMinutes_def lastShoutOutAgeHours_def
  differenceInMinutes_def differenceInHours_def trunc_div_def isWhitelisted_def in_ids_def
  some_keyword_def ex_host_def ascii_lower_def lower_char_def instant_def notifier_calls_def persisted_def subscriptions_def
  ex_env_def ex_cfg_def ex_row_def ex_update_def Let_def

subsection \<open>The reconnect blip\<close>

lemma blip_iff:
  "get stream ''offline_since'' = Date t \<Longrightarrow>
   reconnect_blip e (merged stream upd) =
     (trunc_div (now_minutes e - t) 60000 < reconnect_minutes (cfg e))"
  by (simp add: reconnect_blip_def offlineSinceMinutes_def differenceInMinutes_def instant_def
      merged_fields)

text \<open>
  C2, as the code has it. When a known channel is seen live and its stored
  \<open>offline_since\<close> is less than \<open>reconnect_minutes\<close> before the clock reading (in whole
  minutes, truncated towards zero), the notifier is not called, \<open>lastShoutOut\<close> is as
  stored, the channel is subscribed and the row is written with \<open>isLive = true\<close>. The
  written row keeps the stored \<open>offline_since\<close>: line 124 copies it into the row and
  nothing resets it.
\<close>

theorem reconnect_blip_suppressed:
  assumes "get stream ''offline_since'' = Date t"
    and "trunc_div (now_minutes e - t) 60000 < reconnect_minutes (cfg e)"
  shows "notifier_calls (goneLive e stream upd) = [] \<and>
         subscriptions (goneLive e stream upd) = [get (merged stream upd) ''user_id''] \<and>
         persisted (goneLive e stream upd) = [merged stream upd] \<and>
         get (merged stream upd) ''lastShoutOut'' = get stream ''lastShoutOut'' \<and>
         get (merged stream upd) ''isLive'' = Bool True \<and>
         get (merged stream upd) ''offline_since'' = Date t"
proof -
  from assms have "reconnect_blip e (merged stream upd)" by (simp add: blip_iff)
  then have g: "goneLive e stream upd =
     [Subscribed (get (merged stream upd) ''user_id''),
      DbUpdate (merged stream upd) (get (merged stream upd) ''user_id'')]"
    by (simp add: goneLive_suppressed)
  show ?thesis
    by (simp add: g notifier_calls_def subscriptions_def persisted_def merged_fields assms(1))
qed

theorem reconnect_blip_suppressed_witness:
  "get ex_row ''offline_since'' = Date 99820000 \<and>
   trunc_div (now_minutes ex_env - 99820000) 60000 < reconnect_minutes (cfg ex_env) \<and>
   notifier_calls (goneLive ex_env ex_row ex_update) = [] \<and>
   persisted (goneLive ex_env ex_row ex_update) = [merged ex_row ex_update]"
proof -
  have h1: "get ex_row ''offline_since'' = Date 99820000" by (simp add: get_def ex_row_def)
  have h2: "trunc_div (now_minutes ex_env - 99820000) 60000 < reconnect_minutes (cfg ex_env)"
    by (simp add: trunc_div_def ex_env_def ex_cfg_def)
  show ?thesis using reconnect_blip_suppressed [OF h1 h2, of ex_update] h1 h2 by blast
qed

text \<open>
  The claim of C2 that the row is written with \<open>offline_since\<close> cleared fails for the channel
  of the example, offline for three minutes with \<open>reconnect_minutes = 5\<close>: the row
  written still carries the old instant.
\<close>

theorem reconnect_blip_offline_since_counterexample:
  "get ex_row ''offline_since'' = Date 99820000 \<and>
   trunc_div (now_minutes ex_env - 99820000) 60000 = 3 \<and>
   reconnect_minutes (cfg ex_env) = 5 \<and>
   map (\<lambda>row. get row ''offline_since'') (persisted (goneLive ex_env ex_row ex_update))
     = [Date 99820000] \<and>
   map (\<lambda>row. get row ''offline_since'') (persisted (goneLive ex_env ex_row ex_update))
     \<noteq> [Null]"
  by (simp add: ev)

subsection \<open>Negative time differences\<close>

text \<open>
  A negative number of hours since the last shoutout never suppresses the alert: line 130
  asks for \<open>lastShoutOutAgeHours >= 0\<close>.
\<close>

lemma negative_hours_fail_open:
  "instant e (get stream ''lastShoutOut'') = Some t \<Longrightarrow>
   trunc_div (now_hours e - t) 3600000 < 0 \<Longrightarrow>
   \<not> recently_shouted e (merged stream upd)"
  by (simp add: recently_shouted_def lastShoutOutAgeHours_def differenceInHours_def merged_fields)

text \<open>
  C3, the minutes. Line 128 has no such test: for the example channel with an
  \<open>offline_since\<close> ten minutes after the clock reading the difference is \<open>-10\<close>, which is
  below \<open>reconnect_minutes = 5\<close>, and the alert is suppressed as a reconnect blip. The same
  channel ten minutes offline is alerted.
\<close>

theorem negative_minutes_suppress_alert:
  "differenceInMinutes ex_env (now_minutes ex_env) (Date 100600000) = Fin (- 10) \<and>
   reconnect_blip ex_env (merged (set_prop ''offline_since'' (Date 100600000) ex_row) ex_update) \<and>
   notifier_calls (goneLive ex_env (set_prop ''offline_since'' (Date 100600000) ex_row) ex_update) = [] \<and>
   notifier_calls (goneLive ex_env (set_prop ''offline_since'' (Date 99400000) ex_row) ex_update)
     = [merged (set_prop ''offline_since'' (Date 99400000) ex_row) ex_update]"
  by (simp add: ev)

subsection \<open>Repeated shoutouts and the whitelist\<close>






subsection \<open>The blacklist\<close>

lemmas bl = title_blacklisted_def tags_blacklisted_def user_blacklisted_def blacklisted_def

lemma some_tag_Arr: "some_tag (Arr xs) ts = Inr (list_ex (\<lambda>t. Str t \<in> set xs) ts)"
  by (induction ts) (auto split: bool.splits)

lemma blacklisted_alertStream:
  assumes "blacklisted (host e) (cfg e) s"
  shows "\<exists>err. alertStream e s = ([], Inl err)"
proof (cases "get s ''title''")
  case (Str t)
  show ?thesis
  proof (cases "t \<noteq> [] \<and> some_keyword (host e) t (blacklist_keywords (cfg e))")
    case True
    with Str show ?thesis by (simp add: alertStream_def)
  next
    case nk: False
    show ?thesis
    proof (cases "tags_blacklisted (cfg e) s")
      case True
      then obtain xs where xs: "get s ''tag_ids'' = Arr xs"
          and hit: "list_ex (\<lambda>t. Str t \<in> set xs) (blacklist_tagIds (cfg e))"
        by (auto simp: tags_blacklisted_def split: jsval.splits)
      with Str nk show ?thesis by (auto simp: alertStream_def some_tag_Arr)
    next
      case nt: False
      with assms nk Str have u: "user_blacklisted (cfg e) s" "get s ''user_id'' \<noteq> Str []"
        by (auto simp: blacklisted_def title_blacklisted_def some_keyword_def)
      then obtain uid where uid: "get s ''user_id'' = Str uid" "uid \<noteq> []"
          "uid \<in> set (blacklist_userIds (cfg e))"
        by (auto simp: user_blacklisted_def split: jsval.splits)
      with Str nk show ?thesis
        by (auto simp: alertStream_def in_ids_def split: sum.splits bool.splits)
    qed
  qed
qed (simp_all add: alertStream_def)

lemma addNew_alert_fails:
  "alertStream e (new_stream s) = ([], Inl err) \<Longrightarrow>
   addNew e s = [Subscribed (get s ''user_id''), DbInsert (convertToDStream (new_stream s))]"
  by (simp add: addNew_def Let_def subscribeToStream_def create_def new_stream_fields)

lemma blacklisted_new_stream: "blacklisted h c (new_stream s) = blacklisted h c s"
  by (simp add: blacklisted_def title_blacklisted_def tags_blacklisted_def user_blacklisted_def
      new_stream_fields)

lemma goneLive_blacklisted:
  assumes "blacklisted (host e) (cfg e) (merged st u)"
  shows "goneLive e st u =
     [Subscribed (get (merged st u) ''user_id''),
      DbUpdate (merged st u) (get (merged st u) ''user_id'')]"
proof (cases "reconnect_blip e (merged st u) \<or> recently_shouted e (merged st u)")
  case True
  then show ?thesis by (rule goneLive_suppressed)
next
  case False
  from blacklisted_alertStream [OF assms] obtain err
    where "alertStream e (merged st u) = ([], Inl err)" by blast
  with False show ?thesis using goneLive_alert_fails [of e st u err] by simp
qed

text \<open>
  C7, as the code has it. A stream is blacklisted by a keyword when its title is not empty
  and, lowered by \<^verbatim>\<open>toLowerCase\<close>, contains a blacklisted keyword lowered by
  \<^verbatim>\<open>toLocaleLowerCase\<close>, whatever the host makes of the two; by a tag when its list of tags
  holds a blacklisted tag id; by its channel when its channel id is not empty and is one of
  the blacklisted user ids. A stream blacklisted in one of these ways never reaches the
  notifier, neither in \<^verbatim>\<open>addNew\<close> nor in \<^verbatim>\<open>goneLive\<close>; the channel is subscribed all
  the same and the row is created, or updated, with \<open>isLive = true\<close>.
\<close>

theorem blacklisted_stream_not_notified:
  "(blacklisted (host e) (cfg e) s \<longrightarrow>
      fst (alertStream e s) = [] \<and>
      notifier_calls (addNew e s) = [] \<and>
      subscriptions (addNew e s) = [get s ''user_id''] \<and>
      persisted (addNew e s) = [convertToDStream (new_stream s)] \<and>
      get (convertToDStream (new_stream s)) ''isLive'' = Bool True) \<and>
   (blacklisted (host e) (cfg e) (merged st u) \<longrightarrow>
      notifier_calls (goneLive e st u) = [] \<and>
      subscriptions (goneLive e st u) = [get (merged st u) ''user_id''] \<and>
      persisted (goneLive e st u) = [merged st u] \<and>
      get (merged st u) ''isLive'' = Bool True)"
proof (intro conjI impI)
  assume b: "blacklisted (host e) (cfg e) s"
  from blacklisted_alertStream [OF b] show "fst (alertStream e s) = []" by auto
  from b have "blacklisted (host e) (cfg e) (new_stream s)" by (simp add: blacklisted_new_stream)
  from blacklisted_alertStream [OF this] obtain err
    where "alertStream e (new_stream s) = ([], Inl err)" by blast
  then have n: "addNew e s =
      [Subscribed (get s ''user_id''), DbInsert (convertToDStream (new_stream s))]"
    by (rule addNew_alert_fails)
  show "notifier_calls (addNew e s) = []" by (simp add: n notifier_calls_def)
  show "subscriptions (addNew e s) = [get s ''user_id'']" by (simp add: n subscriptions_def)
  show "persisted (addNew e s) = [convertToDStream (new_stream s)]"
    by (simp add: n persisted_def)
  show "get (convertToDStream (new_stream s)) ''isLive'' = Bool True"
    by (simp add: convert_fields new_stream_fields or_null_def)
next
  assume b: "blacklisted (host e) (cfg e) (merged st u)"
  note g = goneLive_blacklisted [OF b]
  show "notifier_calls (goneLive e st u) = []" by (simp add: g notifier_calls_def)
  show "subscriptions (goneLive e st u) = [get (merged st u) ''user_id'']"
    by (simp add: g subscriptions_def)
  show "persisted (goneLive e st u) = [merged st u]" by (simp add: g persisted_def)
  show "get (merged st u) ''isLive'' = Bool True" by (simp add: merged_fields)
qed

theorem blacklisted_stream_not_notified_witness:
  "blacklisted (host ex_env) (cfg ex_env)
     (set_prop ''title'' (Str ''No SPAM here'') ex_update) \<and>
   notifier_calls (addNew ex_env (set_prop ''title'' (Str ''No SPAM here'') ex_update)) = [] \<and>
   notifier_calls (addNew ex_env ex_update) = [new_stream ex_update] \<and>
   \<not> reconnect_blip ex_env
       (merged (set_prop ''offline_since'' (Date 99400000) ex_row)
          (set_prop ''tag_ids'' (Arr [Str ''t1'', Str ''t9'']) ex_update)) \<and>
   \<not> recently_shouted ex_env
       (merged (set_prop ''offline_since'' (Date 99400000) ex_row)
          (set_prop ''tag_ids'' (Arr [Str ''t1'', Str ''t9'']) ex_update)) \<and>
   blacklisted (host ex_env) (cfg ex_env)
     (merged (set_prop ''offline_since'' (Date 99400000) ex_row)
        (set_prop ''tag_ids'' (Arr [Str ''t1'', Str ''t9'']) ex_update)) \<and>
   notifier_calls (goneLive ex_env (set_prop ''offline_since'' (Date 99400000) ex_row)
                     (set_prop ''tag_ids'' (Arr [Str ''t1'', Str ''t9'']) ex_update)) = [] \<and>
   notifier_calls (goneLive ex_env (set_prop ''offline_since'' (Date 99400000) ex_row)
                     ex_update)
     = [merged (set_prop ''offline_since'' (Date 99400000) ex_row) ex_update]"
proof -
  let ?spam = "set_prop ''title'' (Str ''No SPAM here'') ex_update"
  let ?row = "set_prop ''offline_since'' (Date 99400000) ex_row"
  let ?tagged = "set_prop ''tag_ids'' (Arr [Str ''t1'', Str ''t9'']) ex_update"
  have h1: "blacklisted (host ex_env) (cfg ex_env) ?spam"
    by (simp add: ev bl)
  have h2: "blacklisted (host ex_env) (cfg ex_env) (merged ?row ?tagged)"
    by (simp add: ev bl)
  have h3: "\<not> reconnect_blip ex_env (merged ?row ?tagged)"
    "\<not> recently_shouted ex_env (merged ?row ?tagged)"
    by (simp_all add: ev)
  have h4: "notifier_calls (addNew ex_env ex_update) = [new_stream ex_update]"
    "notifier_calls (goneLive ex_env ?row ex_update) = [merged ?row ex_update]"
    by (simp_all add: ev)
  from blacklisted_stream_not_notified [of ex_env ?spam ?row ?tagged] h1 h2
  have "notifier_calls (addNew ex_env ?spam) = []"
    and "notifier_calls (goneLive ex_env ?row ?tagged) = []"
    by blast+
  with h1 h2 h3 h4 show ?thesis by blast
qed

text \<open>
  The claim of C7 for every title that contains a blacklisted keyword fails for the empty
  title: it contains the empty keyword, yet line 27 tests \<^verbatim>\<open>stream.title &&\<close> first, the
  keyword test is skipped and the notifier is called.
\<close>

theorem blacklisted_empty_title_counterexample:
  "title_blacklisted ex_host (ex_cfg\<lparr>blacklist_keywords := ['''']\<rparr>) (set_prop ''title'' (Str '''') ex_update) \<and>
   notifier_calls (addNew (ex_env\<lparr>cfg := ex_cfg\<lparr>blacklist_keywords := ['''']\<rparr>\<rparr>)
                     (set_prop ''title'' (Str '''') ex_update))
     = [new_stream (set_prop ''title'' (Str '''') ex_update)]"
  by (simp add: ev bl)

section \<open>Properties of twitch.js\<close>

subsection \<open>Evaluating the examples\<close>

lemmas tw = start_def page_def answer_def token_answer_def ex_cred_def ex_call_def
  default_call_def token_call_def sent_def on_response_def URL_BASE_def Let_def

subsection \<open>One request, one token\<close>

lemma apiRequest_answer:
  "\<not> exited w \<Longrightarrow> responses w = res # rest \<Longrightarrow> status res \<noteq> 401 \<Longrightarrow>
   apiRequest (Suc n) cred c w =
     Some (Resolved (decoded c res),
           w\<lparr>requests := requests w @ [sent c (token w)], responses := rest\<rparr>)"
  by (simp add: on_response_def decoded_def)

lemma ensureToken_token:
  "ensureToken n cred w = Some (Resolved t, w') \<Longrightarrow> token w' = t"
  by (cases n) (auto split: if_splits option.splits prod.splits outcome.splits)

lemma ensureToken_exchange:
  assumes "\<not> token_truthy (token w)" "\<not> exited w" "responses w = res # rest"
    "status res = 200" "access_token (json res) = Some t"
  shows "ensureToken (Suc (Suc n)) cred w =
     Some (Resolved (Tok t),
           w\<lparr>requests := requests w @ [sent (token_call (fst cred) (snd cred)) (token w)],
             responses := rest, token := Tok t\<rparr>)"
  using assms by (simp add: on_response_def token_call_def default_call_def)



text \<open>
  C1. With \<open>retries = 1\<close>, a 401 answered by a successful token exchange and a 200 on the
  re-issued request: all three requests are sent, the last with the new token, and its
  response is consumed, but the promise of \<^verbatim>\<open>apiRequest\<close> resolves to \<open>undefined\<close>, not
  to the decoded body (line 64 does not return the chain that retries). When the re-issued
  request is answered by a 401 as well, the process exits.
\<close>

theorem apiRequest_retry_result_dropped:
  "map_option fst (apiRequest 3 ex_cred ex_call
      (start (Tok ''old'') [answer 401, token_answer ''new'', page [streamA] None]))
     = Some (Resolved VUndefined) \<and>
   map_option (responses \<circ> snd) (apiRequest 3 ex_cred ex_call
      (start (Tok ''old'') [answer 401, token_answer ''new'', page [streamA] None]))
     = Some [] \<and>
   map_option (map req_authorization \<circ> requests \<circ> snd) (apiRequest 3 ex_cred ex_call
      (start (Tok ''old'') [answer 401, token_answer ''new'', page [streamA] None]))
     = Some [Some ''Bearer old'', None, Some ''Bearer new''] \<and>
   map_option (exited \<circ> snd) (apiRequest 3 ex_cred ex_call
      (start (Tok ''old'')
         [answer 401, token_answer ''new'', (answer 401 :: char TwitchStream response)]))
     = Some True"
  by (simp add: eval_nat_numeral tw)

text \<open>
  C8, as the code has it. A call of \<^verbatim>\<open>ensureToken\<close> that resolved to a non-empty token is
  followed by a call that resolves to the same token and changes nothing: no request is
  sent. The callback that receives a 401 sets the token to \<open>null\<close>. A call of
  \<^verbatim>\<open>ensureToken\<close> that finds no token sends one client-credentials request and, when that
  is answered by a 200 with an \<open>access_token\<close>, stores and returns the new token.
\<close>

theorem ensureToken_reuses_token:
  "(ensureToken n cred w0 = Some (Resolved (Tok t0), w1) \<and> t0 \<noteq> [] \<longrightarrow>
      ensureToken (Suc m) cred w1 = Some (Resolved (Tok t0), w1)) \<and>
   (status res0 = 401 \<longrightarrow> token (snd (on_response c res0 w2)) = TNull) \<and>
   (\<not> token_truthy (token w) \<and> \<not> exited w \<and> responses w = res # rest \<and>
    status res = 200 \<and> access_token (json res) = Some t \<longrightarrow>
      ensureToken (Suc (Suc m)) cred w =
        Some (Resolved (Tok t),
              w\<lparr>requests := requests w @ [sent (token_call (fst cred) (snd cred)) (token w)],
                responses := rest, token := Tok t\<rparr>))"
proof (intro conjI impI)
  assume a: "ensureToken n cred w0 = Some (Resolved (Tok t0), w1) \<and> t0 \<noteq> []"
  then have "token w1 = Tok t0" using ensureToken_token by blast
  with a show "ensureToken (Suc m) cred w1 = Some (Resolved (Tok t0), w1)" by simp
next
  assume "status res0 = 401"
  then show "token (snd (on_response c res0 w2)) = TNull"
    by (simp add: on_response_def Let_def)
next
  assume "\<not> token_truthy (token w) \<and> \<not> exited w \<and> responses w = res # rest \<and>
    status res = 200 \<and> access_token (json res) = Some t"
  then show "ensureToken (Suc (Suc m)) cred w =
        Some (Resolved (Tok t),
              w\<lparr>requests := requests w @ [sent (token_call (fst cred) (snd cred)) (token w)],
                responses := rest, token := Tok t\<rparr>)"
    using ensureToken_exchange by blast
qed

theorem ensureToken_reuses_token_witness:
  "ensureToken 2 ex_cred (start TUndefined [token_answer ''abc'' :: unit response]) =
     Some (Resolved (Tok ''abc''),
           \<lparr>token = Tok ''abc'', responses = [],
            requests = [sent (token_call ''client'' ''secret'') TUndefined], exited = False\<rparr>) \<and>
   ensureToken 1 ex_cred
     \<lparr>token = Tok ''abc'', responses = ([] :: unit response list),
      requests = [sent (token_call ''client'' ''secret'') TUndefined], exited = False\<rparr> =
     Some (Resolved (Tok ''abc''),
           \<lparr>token = Tok ''abc'', responses = [],
            requests = [sent (token_call ''client'' ''secret'') TUndefined], exited = False\<rparr>) \<and>
   token (snd (on_response ex_call (answer 401)
                 (start (Tok ''abc'') ([] :: unit response list)))) = TNull \<and>
   map_option fst (ensureToken 2 ex_cred (start TNull [token_answer ''xyz'' :: unit response]))
     = Some (Resolved (Tok ''xyz''))"
proof -
  let ?first = "start TUndefined [token_answer ''abc'' :: unit response]"
  let ?cached = "\<lparr>token = Tok ''abc'', responses = ([] :: unit response list),
      requests = [sent (token_call ''client'' ''secret'') TUndefined], exited = False\<rparr>"
  let ?cleared = "start TNull [token_answer ''xyz'' :: unit response]"
  have h1: "ensureToken 2 ex_cred ?first = Some (Resolved (Tok ''abc''), ?cached) \<and> ''abc'' \<noteq> []"
    by (simp add: eval_nat_numeral tw)
  have h2: "status (answer 401 :: unit response) = 401" by (simp add: answer_def)
  have h3: "\<not> token_truthy (token ?cleared) \<and> \<not> exited ?cleared \<and>
      responses ?cleared = token_answer ''xyz'' # [] \<and>
      status (token_answer ''xyz'' :: unit response) = 200 \<and>
      access_token (json (token_answer ''xyz'' :: unit response)) = Some ''xyz''"
    by (simp add: start_def token_answer_def)
  from ensureToken_reuses_token
    [of 2 ex_cred ?first "''abc''" ?cached 0 "answer 401"
        ex_call "start (Tok ''abc'') []" ?cleared "token_answer ''xyz''" "[]" "''xyz''"]
    h1 h2 h3
  have a: "ensureToken (Suc 0) ex_cred ?cached = Some (Resolved (Tok ''abc''), ?cached)"
    and b: "token (snd (on_response ex_call (answer 401 :: unit response)
                 (start (Tok ''abc'') []))) = TNull"
    and c: "ensureToken (Suc (Suc 0)) ex_cred ?cleared =
        Some (Resolved (Tok ''xyz''),
              ?cleared\<lparr>requests := requests ?cleared @
                    [sent (token_call (fst ex_cred) (snd ex_cred)) (token ?cleared)],
                responses := [], token := Tok ''xyz''\<rparr>)"
    by blast+
  from c have c': "map_option fst (ensureToken 2 ex_cred ?cleared) = Some (Resolved (Tok ''xyz''))"
    by (simp add: eval_nat_numeral del: ensureToken.simps)
  from a have a': "ensureToken 1 ex_cred ?cached = Some (Resolved (Tok ''abc''), ?cached)"
    by (simp del: ensureToken.simps)
  from h1 a' b c' show ?thesis by blast
qed

text \<open>
  The claim of C8 that two calls with no 401 between them resolve to the same token fails
  when the first exchange is answered by a 500: the first call resolves to \<open>undefined\<close>
  (the status number has no \<open>access_token\<close>), stores that, and the second call makes a
  new exchange and resolves to its token.
\<close>

theorem ensureToken_failed_exchange_counterexample:
  "map_option fst
     (ensureToken 2 ex_cred (start TUndefined [answer 500, token_answer ''new'' :: unit response]))
     = Some (Resolved TUndefined) \<and>
   (case ensureToken 2 ex_cred
           (start TUndefined [answer 500, token_answer ''new'' :: unit response]) of
      None \<Rightarrow> None
    | Some (r, w1) \<Rightarrow> map_option fst (ensureToken 2 ex_cred w1))
     = Some (Resolved (Tok ''new'')) \<and>
   (case ensureToken 2 ex_cred
           (start TUndefined [answer 500, token_answer ''new'' :: unit response]) of
      None \<Rightarrow> None
    | Some (r, w1) \<Rightarrow> map_option (length \<circ> requests \<circ> snd) (ensureToken 2 ex_cred w1))
     = Some 2"
  by (simp add: eval_nat_numeral tw)

subsection \<open>Pagination\<close>


























subsection \<open>Streams by metadata\<close>

lemma find_app:
  "find P (xs @ ys) = (case find P xs of Some x \<Rightarrow> Some x | None \<Rightarrow> find P ys)"
  by (induction xs) auto

lemma find_SomeD: "find P xs = Some x \<Longrightarrow> P x \<and> x \<in> set xs"
  by (induction xs) (auto split: if_splits)

lemma dedupe_step_cases:
  "(tw_id x \<in> tw_id ` set acc \<and> dedupe_step x acc = acc) \<or>
   (tw_id x \<notin> tw_id ` set acc \<and> dedupe_step x acc = acc @ [x])"
proof (cases "find (\<lambda>s. tw_id s = tw_id x) acc")
  case None
  then have "tw_id x \<notin> tw_id ` set acc" by (auto simp: find_None_iff)
  moreover from None have "dedupe_step x acc = acc @ [x]" by (simp add: dedupe_step_def)
  ultimately show ?thesis by blast
next
  case (Some y)
  from find_SomeD [OF Some] have "tw_id x \<in> tw_id ` set acc" by (metis image_eqI)
  moreover from Some have "dedupe_step x acc = acc" by (simp add: dedupe_step_def)
  ultimately show ?thesis by blast
qed

lemma find_id_None: "i \<notin> tw_id ` set acc \<Longrightarrow> find (\<lambda>s. tw_id s = i) acc = None"
  by (auto simp: find_None_iff)

lemma find_dedupe_step:
  "find (\<lambda>s. tw_id s = i) (dedupe_step x acc) =
     (case find (\<lambda>s. tw_id s = i) acc of
        Some y \<Rightarrow> Some y
      | None \<Rightarrow> if tw_id x = i then Some x else None)"
proof -
  from dedupe_step_cases [of x acc] show ?thesis
  proof
    assume a: "tw_id x \<in> tw_id ` set acc \<and> dedupe_step x acc = acc"
    show ?thesis
    proof (cases "find (\<lambda>s. tw_id s = i) acc")
      case None
      then have "i \<notin> tw_id ` set acc" by (auto simp: find_None_iff)
      with a have "tw_id x \<noteq> i" by blast
      with a None show ?thesis by simp
    next
      case (Some y)
      with a show ?thesis by simp
    qed
  next
    assume a: "tw_id x \<notin> tw_id ` set acc \<and> dedupe_step x acc = acc @ [x]"
    then show ?thesis by (simp add: find_app split: option.splits)
  qed
qed

lemma find_fold_dedupe:
  "find (\<lambda>s. tw_id s = i) (fold dedupe_step xs acc) =
     (case find (\<lambda>s. tw_id s = i) acc of
        Some y \<Rightarrow> Some y
      | None \<Rightarrow> find (\<lambda>s. tw_id s = i) xs)"
  by (induction xs arbitrary: acc) (auto simp: find_dedupe_step split: option.splits)

lemma distinct_dedupe_step:
  "distinct (map tw_id acc) \<Longrightarrow> distinct (map tw_id (dedupe_step x acc))"
  using dedupe_step_cases [of x acc] by auto

lemma distinct_fold_dedupe:
  "distinct (map tw_id acc) \<Longrightarrow> distinct (map tw_id (fold dedupe_step xs acc))"
  by (induction xs arbitrary: acc) (auto simp: distinct_dedupe_step)

lemma ids_dedupe_step: "tw_id ` set (dedupe_step x acc) = insert (tw_id x) (tw_id ` set acc)"
  using dedupe_step_cases [of x acc] by auto

lemma ids_fold_dedupe: "tw_id ` set (fold dedupe_step xs acc) = tw_id ` set xs \<union> tw_id ` set acc"
  by (induction xs arbitrary: acc) (auto simp: ids_dedupe_step)

lemma metadata_result:
  "getStreamsByMetadata h tagIds keywords tagListing kwListing = Resolved r \<Longrightarrow>
   \<exists>s1 s2. r = mergeStreams (filter (tag_match tagIds) s1) (filter (keyword_match h keywords) s2)"
  by (cases tagListing; cases kwListing)
     (auto simp: getStreamsByMetadata_def getStreamsByTagId_def getStreamsByKeywords_def)

text \<open>
  C5, as the code has it. In the merged list every stream id (the \<open>id\<close> member, which line
  193 compares) occurs once; the ids are those of the tag matches and of the keyword
  matches; and for every id the copy kept is the first of the tag matches with that id, or,
  when no tag match has it, the first of the keyword matches. Whatever
  \<^verbatim>\<open>getStreamsByMetadata\<close> resolves to, for whatever the two listings end in, has pairwise
  different stream ids.
\<close>

theorem merged_streams_distinct_ids:
  "distinct (map tw_id (mergeStreams taggedStreams kwStreams)) \<and>
   set (map tw_id (mergeStreams taggedStreams kwStreams)) =
     set (map tw_id taggedStreams) \<union> set (map tw_id kwStreams) \<and>
   find (\<lambda>s. tw_id s = i) (mergeStreams taggedStreams kwStreams) =
     (case find (\<lambda>s. tw_id s = i) taggedStreams of
        Some s \<Rightarrow> Some s
      | None \<Rightarrow> find (\<lambda>s. tw_id s = i) kwStreams) \<and>
   (getStreamsByMetadata h tagIds keywords tagListing kwListing = Resolved r
      \<longrightarrow> distinct (map tw_id r))"
proof (intro conjI impI)
  show "distinct (map tw_id (mergeStreams taggedStreams kwStreams))"
    by (simp add: mergeStreams_def distinct_fold_dedupe)
  show "set (map tw_id (mergeStreams taggedStreams kwStreams)) =
     set (map tw_id taggedStreams) \<union> set (map tw_id kwStreams)"
    by (auto simp: mergeStreams_def ids_fold_dedupe)
  show "find (\<lambda>s. tw_id s = i) (mergeStreams taggedStreams kwStreams) =
     (case find (\<lambda>s. tw_id s = i) taggedStreams of
        Some s \<Rightarrow> Some s
      | None \<Rightarrow> find (\<lambda>s. tw_id s = i) kwStreams)"
    by (simp add: mergeStreams_def find_fold_dedupe find_app)
  assume "getStreamsByMetadata h tagIds keywords tagListing kwListing = Resolved r"
  from metadata_result [OF this] show "distinct (map tw_id r)"
    by (auto simp: mergeStreams_def distinct_fold_dedupe)
qed

theorem merged_streams_distinct_ids_witness:
  "map_option fst (getStreams 2 ex_cred [''g''] None []
      (start (Tok ''abc'') [page [streamA, streamB] None]))
     = Some (Resolved [streamA, streamB]) \<and>
   map_option fst (getStreams 2 ex_cred [''g''] None []
      (start (Tok ''abc'') [page [streamA, streamC] None]))
     = Some (Resolved [streamA, streamC]) \<and>
   getStreamsByMetadata ex_host [''t1''] [''speedrun'']
      (Resolved [streamA, streamB]) (Resolved [streamA, streamC])
     = Resolved [streamA, streamB, streamC] \<and>
   distinct (map tw_id [streamA, streamB, streamC])"
proof -
  have l: "map_option fst (getStreams 2 ex_cred [''g''] None []
      (start (Tok ''abc'') [page [streamA, streamB] None]))
     = Some (Resolved [streamA, streamB])"
    "map_option fst (getStreams 2 ex_cred [''g''] None []
      (start (Tok ''abc'') [page [streamA, streamC] None]))
     = Some (Resolved [streamA, streamC])"
    by (simp_all add: eval_nat_numeral tw streams_call_def)
  have h: "getStreamsByMetadata ex_host [''t1''] [''speedrun'']
      (Resolved [streamA, streamB]) (Resolved [streamA, streamC])
     = Resolved [streamA, streamB, streamC]"
    by (simp add: getStreamsByMetadata_def getStreamsByTagId_def getStreamsByKeywords_def
        mergeStreams_def dedupe_step_def tag_match_def keyword_match_def ex_host_def
        ascii_lower_def lower_char_def streamA_def streamB_def streamC_def)
  from merged_streams_distinct_ids
    [of "[]" "[]" "[]" ex_host "[''t1'']" "[''speedrun'']"
        "Resolved [streamA, streamB]" "Resolved [streamA, streamC]"
        "[streamA, streamB, streamC]"] h l
  show ?thesis by blast
qed

text \<open>
  The claim of C5 that every channel id occurs at most once fails when a channel is listed
  under two stream ids (the two listings are separate fetches): the channel \<open>7\<close> is
  tag-matched under the stream id \<open>s1\<close> and keyword-matched under \<open>s9\<close>, and both copies
  are kept.
\<close>

theorem merged_streams_channel_twice_counterexample:
  "mergeStreams (filter (tag_match [''t1'']) [streamA, streamB])
                (filter (keyword_match ex_host [''speedrun'']) [streamA2, streamC])
     = [streamA, streamB, streamA2, streamC] \<and>
   map tw_user_id [streamA, streamB, streamA2, streamC] = [''7'', ''8'', ''7'', ''9''] \<and>
   \<not> distinct (map tw_user_id
        (mergeStreams (filter (tag_match [''t1'']) [streamA, streamB])
                      (filter (keyword_match ex_host [''speedrun'']) [streamA2, streamC])))"
  by (simp add: mergeStreams_def dedupe_step_def tag_match_def keyword_match_def ex_host_def
      ascii_lower_def lower_char_def streamA_def streamB_def streamC_def streamA2_def)

end
